theory Spec2Isabelle
  imports Main
begin

section \<open>The chat page of the dashboard: \<open>handleSubmit\<close> and the stream it reads\<close>

text \<open>
  The development embeds \<open>ChatPage\<close> of \<open>src/frontend/src/app/(app)/dashboard/page.tsx\<close>:
  the component's state (\<open>useState\<close>), its \<open>handleSubmit\<close>, and the state updates it
  makes while it reads the response stream. Text is a list of 8-bit code units.
\<close>

subsection \<open>The string operations the page calls\<close>

text \<open>\<open>s.split(sep)\<close> for a separator of one character: never empty, one more piece than
  there are separators.\<close>

fun split_on :: "char \<Rightarrow> string \<Rightarrow> string list" where
  "split_on sep [] = [[]]"
| "split_on sep (c # cs) =
     (if c = sep then [] # split_on sep cs
      else (case split_on sep cs of
              l # ls \<Rightarrow> (c # l) # ls
            | [] \<Rightarrow> [[c]]))"

text \<open>\<open>line.startsWith(p)\<close> and \<open>line.slice(n)\<close> (a start index that is not negative).\<close>

definition startsWith :: "string \<Rightarrow> string \<Rightarrow> bool" where
  "startsWith s p = (take (length p) s = p)"

definition slice :: "nat \<Rightarrow> string \<Rightarrow> string" where
  "slice n s = drop n s"

text \<open>\<open>s.trim()\<close> strips white space and line terminators from both ends; among the code
  units below 256 these are TAB, LF, VT, FF, CR, SP and NBSP.\<close>

definition isWhiteSpace :: "char \<Rightarrow> bool" where
  "isWhiteSpace c =
     (c = CHR 0x09 \<or> c = CHR 0x0A \<or> c = CHR 0x0B \<or> c = CHR 0x0C \<or> c = CHR 0x0D
      \<or> c = CHR 0x20 \<or> c = CHR 0xA0)"

definition trim :: "string \<Rightarrow> string" where
  "trim s = rev (dropWhile isWhiteSpace (rev (dropWhile isWhiteSpace s)))"

text \<open>\<open>n.toString()\<close> for a number that is a natural number: its decimal digits.\<close>

definition digit :: "nat \<Rightarrow> char" where
  "digit d = ''0123456789'' ! d"

fun toString :: "nat \<Rightarrow> string" where
  "toString n = (if n < 10 then [digit n] else toString (n div 10) @ [digit (n mod 10)])"

declare toString.simps [simp del]

subsection \<open>Values read out of a parsed frame\<close>

text \<open>
  \<open>JSON.parse\<close> returns a value of type \<open>any\<close>. A number is kept as its text (all the page
  does with a number is test it and append it to a string); an object is the list of its
  members in the order they were written.
\<close>

datatype jsvalue =
    JUndefined
  | JNull
  | JBool bool
  | JNumber string
  | JString string
  | JArray "jsvalue list"
  | JObject "(string \<times> jsvalue) list"

text \<open>\<open>v.name\<close> for the two member names the page reads, neither of which any prototype
  defines: a \<open>TypeError\<close> (\<open>None\<close>) on \<open>null\<close> and \<open>undefined\<close>, the member written last
  under that name on an object, \<open>undefined\<close> otherwise.\<close>

fun get_member :: "jsvalue \<Rightarrow> string \<Rightarrow> jsvalue option" where
  "get_member JUndefined name = None"
| "get_member JNull name = None"
| "get_member (JObject kvs) name =
     (case map_of (rev kvs) name of None \<Rightarrow> Some JUndefined | Some v \<Rightarrow> Some v)"
| "get_member v name = Some JUndefined"

text \<open>The truth value of a value in a condition. A number is false when it is zero: when no
  digit of its mantissa is other than 0 (a literal too small for a double, which the
  platform reads as zero, is not zero here).\<close>

definition mantissa :: "string \<Rightarrow> string" where
  "mantissa s = takeWhile (\<lambda>c. c \<noteq> CHR ''e'' \<and> c \<noteq> CHR ''E'') s"

fun truthy :: "jsvalue \<Rightarrow> bool" where
  "truthy JUndefined = False"
| "truthy JNull = False"
| "truthy (JBool b) = b"
| "truthy (JNumber s) =
     (\<exists>c \<in> set (mantissa s). c \<in> set ''123456789'')"
| "truthy (JString s) = (s \<noteq> [])"
| "truthy (JArray vs) = True"
| "truthy (JObject kvs) = True"

text \<open>The text \<open>s + v\<close> appends to a string \<open>s\<close>. A number gives its text as written (the
  platform prints the double it read, the same text for a literal such as \<open>42\<close> or
  \<open>1.5\<close>). An array is its elements joined by commas, \<open>null\<close> and \<open>undefined\<close>
  elements empty; an object is \<open>[object Object]\<close>, also where a member of its own named
  \<open>toString\<close> would make the conversion throw.\<close>

fun join :: "string \<Rightarrow> string list \<Rightarrow> string" where
  "join sep [] = []"
| "join sep [x] = x"
| "join sep (x # y # ys) = x @ sep @ join sep (y # ys)"

fun js_str :: "jsvalue \<Rightarrow> string" where
  "js_str JUndefined = ''undefined''"
| "js_str JNull = ''null''"
| "js_str (JBool b) = (if b then ''true'' else ''false'')"
| "js_str (JNumber s) = s"
| "js_str (JString s) = s"
| "js_str (JArray vs) =
     join '','' (map (\<lambda>v. if v = JNull \<or> v = JUndefined then [] else js_str v) vs)"
| "js_str (JObject kvs) = ''[object Object]''"

subsection \<open>The component's state\<close>

datatype role = User | Assistant

text \<open>\<open>interface Message\<close>; the field \<open>id\<close> is \<open>msg_id\<close> here.\<close>

record message =
  msg_id :: string
  role :: role
  content :: string

text \<open>
  The four \<open>useState\<close> cells \<open>handleSubmit\<close> reads and writes, and \<open>sent\<close>: the calls of
  \<open>api.chat.streamMessage\<close> made so far, each with its two arguments. \<open>conversationId\<close> is
  \<open>JUndefined\<close> until it is set.
\<close>

record chat_page =
  messages :: "message list"
  input :: string
  isStreaming :: bool
  conversationId :: jsvalue
  sent :: "(string \<times> jsvalue) list"

text \<open>The state of a page just mounted and with no \<open>?id=\<close> to load.\<close>

definition initial :: chat_page where
  "initial = \<lparr>messages = [], input = [], isStreaming = False,
              conversationId = JUndefined, sent = []\<rparr>"

subsection \<open>The updaters passed to \<open>setMessages\<close>\<close>

text \<open>\<open>prev.map(msg => msg.id === assistantId ? {...msg, content: msg.content + x} : msg)\<close>\<close>

definition appendContent :: "string \<Rightarrow> string \<Rightarrow> message list \<Rightarrow> message list" where
  "appendContent assistantId x prev =
     map (\<lambda>msg. if msg_id msg = assistantId
                then msg\<lparr>content := content msg @ x\<rparr> else msg) prev"

text \<open>The updater of the \<open>catch\<close> block: the same map, the content replaced.\<close>

definition errorText :: string where
  "errorText = ''Error: Failed to get response. Please try again.''"

definition showError :: "string \<Rightarrow> message list \<Rightarrow> message list" where
  "showError assistantId prev =
     map (\<lambda>msg. if msg_id msg = assistantId
                then msg\<lparr>content := errorText\<rparr> else msg) prev"

subsection \<open>One line, one chunk, the read loop\<close>

text \<open>
  \<open>JSON.parse\<close> is the platform's, not the repository's: the functions below take it as
  the parameter \<open>parse\<close>, \<open>None\<close> when it throws. \<open>cid0\<close> is the \<open>conversationId\<close> of the
  render that created this \<open>handleSubmit\<close>: the closure reads that constant, not the state
  cell, so it is the same value for every line of the exchange.
\<close>

text \<open>The inner \<open>catch\<close>: "Non-JSON chunk, append as text".\<close>

definition nonJson :: "string \<Rightarrow> string \<Rightarrow> chat_page \<Rightarrow> chat_page" where
  "nonJson assistantId data st =
     (if trim data \<noteq> []
      then st\<lparr>messages := appendContent assistantId data (messages st)\<rparr>
      else st)"

text \<open>The body of \<open>for (const line of lines)\<close>.\<close>

definition processLine ::
  "(string \<Rightarrow> jsvalue option) \<Rightarrow> string \<Rightarrow> jsvalue \<Rightarrow> string \<Rightarrow> chat_page \<Rightarrow> chat_page" where
  "processLine parse assistantId cid0 line st =
     (if startsWith line ''data: '' then
        (let data = slice 6 line in
         if data = ''[DONE]'' then st
         else
           (case parse data of
              None \<Rightarrow> nonJson assistantId data st
            | Some parsed \<Rightarrow>
                (case get_member parsed ''conversation_id'' of
                   None \<Rightarrow> nonJson assistantId data st
                 | Some cid \<Rightarrow>
                     (let st1 = (if truthy cid \<and> \<not> truthy cid0
                                 then st\<lparr>conversationId := cid\<rparr> else st)
                      in case get_member parsed ''content'' of
                           None \<Rightarrow> nonJson assistantId data st1
                         | Some c \<Rightarrow>
                             (if truthy c
                              then st1\<lparr>messages :=
                                     appendContent assistantId (js_str c) (messages st1)\<rparr>
                              else st1)))))
      else st)"

text \<open>One turn of \<open>while (true)\<close> after a read that was not \<open>done\<close>: the chunk's text is
  split at \<open>"\n"\<close> and every piece is taken as a line.\<close>

definition processChunk ::
  "(string \<Rightarrow> jsvalue option) \<Rightarrow> string \<Rightarrow> jsvalue \<Rightarrow> string \<Rightarrow> chat_page \<Rightarrow> chat_page" where
  "processChunk parse assistantId cid0 chunk st =
     fold (processLine parse assistantId cid0) (split_on CHR 0x0A chunk) st"

text \<open>The loop over the chunks the reader delivers before it stops.\<close>

fun readLoop ::
  "(string \<Rightarrow> jsvalue option) \<Rightarrow> string \<Rightarrow> jsvalue \<Rightarrow> string list \<Rightarrow> chat_page \<Rightarrow> chat_page" where
  "readLoop parse assistantId cid0 [] st = st"
| "readLoop parse assistantId cid0 (chunk # chunks) st =
     readLoop parse assistantId cid0 chunks (processChunk parse assistantId cid0 chunk st)"

subsection \<open>The transport and \<open>handleSubmit\<close>\<close>

text \<open>
  \<open>api.chat.streamMessage\<close> (in \<open>@/lib/api\<close>) and the reader are the environment. A call
  is rejected (the promise throws), or answers without a body, or answers with a body whose
  reader delivers the texts of finitely many chunks and then either reports \<open>done\<close> or
  throws. A reader that never stops keeps \<open>handleSubmit\<close> in its loop and is not a value
  of this type.
\<close>

datatype ending = Done | ReadError

datatype response = Rejected | NoBody | Body "string list" ending

text \<open>The outer \<open>catch\<close>.\<close>

definition onError :: "string \<Rightarrow> chat_page \<Rightarrow> chat_page" where
  "onError assistantId st = st\<lparr>messages := showError assistantId (messages st)\<rparr>"

text \<open>\<open>handleSubmit\<close> up to its first \<open>await\<close>: the two messages are appended, the input is
  cleared, \<open>isStreaming\<close> is set and the request is issued. \<open>now1\<close> and \<open>now2\<close> are the two
  readings of \<open>Date.now()\<close>.\<close>

definition userMessage :: "nat \<Rightarrow> chat_page \<Rightarrow> message" where
  "userMessage now1 st = \<lparr>msg_id = toString now1, role = User, content = trim (input st)\<rparr>"

definition assistantId :: "nat \<Rightarrow> string" where
  "assistantId now2 = toString (now2 + 1)"

definition begin_exchange :: "nat \<Rightarrow> nat \<Rightarrow> chat_page \<Rightarrow> chat_page" where
  "begin_exchange now1 now2 st =
     (let st1 = st\<lparr>messages := messages st @ [userMessage now1 st]\<rparr>;
          st2 = st1\<lparr>input := []\<rparr>;
          st3 = st2\<lparr>isStreaming := True\<rparr>;
          st4 = st3\<lparr>messages := messages st3 @
                  [\<lparr>msg_id = assistantId now2, role = Assistant, content = []\<rparr>]\<rparr>
      in st4\<lparr>sent := sent st4 @ [(content (userMessage now1 st), conversationId st)]\<rparr>)"

text \<open>The \<open>try\<close> block after the request was issued, with its \<open>catch\<close>.\<close>

definition consume ::
  "(string \<Rightarrow> jsvalue option) \<Rightarrow> string \<Rightarrow> jsvalue \<Rightarrow> response \<Rightarrow> chat_page \<Rightarrow> chat_page" where
  "consume parse aid cid0 resp st =
     (case resp of
        Rejected \<Rightarrow> onError aid st
      | NoBody \<Rightarrow> st
      | Body chunks Done \<Rightarrow> readLoop parse aid cid0 chunks st
      | Body chunks ReadError \<Rightarrow> onError aid (readLoop parse aid cid0 chunks st))"

text \<open>\<open>handleSubmit\<close>, from the guard to \<open>finally\<close>. It reads \<open>input\<close>, \<open>isStreaming\<close>
  and \<open>conversationId\<close> as the render that created it saw them; the model calls it on the
  state that render was made from. The setters act on the state cells in the order they are
  called.\<close>

definition handleSubmit ::
  "(string \<Rightarrow> jsvalue option) \<Rightarrow> nat \<Rightarrow> nat \<Rightarrow> response \<Rightarrow> chat_page \<Rightarrow> chat_page" where
  "handleSubmit parse now1 now2 resp st =
     (if trim (input st) = [] \<or> isStreaming st then st
      else
        (let st' = consume parse (assistantId now2) (conversationId st) resp
                     (begin_exchange now1 now2 st)
         in st'\<lparr>isStreaming := False\<rparr>))"

subsection \<open>A model of \<open>JSON.parse\<close>\<close>

text \<open>
  The grammar of JSON texts, read by recursive descent; \<open>None\<close> is the \<open>SyntaxError\<close>.
  The scenarios below are evaluated with it. A number keeps its literal as its text. A
  \<open>\u\<close> escape above \<open>00FF\<close> has no 8-bit code unit and is not covered: the model rejects
  it.
\<close>

definition isJsonWs :: "char \<Rightarrow> bool" where
  "isJsonWs c = (c = CHR 0x20 \<or> c = CHR 0x09 \<or> c = CHR 0x0A \<or> c = CHR 0x0D)"

definition skip_ws :: "string \<Rightarrow> string" where
  "skip_ws s = dropWhile isJsonWs s"

definition isDigit :: "char \<Rightarrow> bool" where
  "isDigit c = (c \<in> set ''0123456789'')"

definition hexval :: "char \<Rightarrow> nat option" where
  "hexval c =
     (let n = (of_char c :: nat) in
      if 48 \<le> n \<and> n \<le> 57 then Some (n - 48)
      else if 65 \<le> n \<and> n \<le> 70 then Some (n - 55)
      else if 97 \<le> n \<and> n \<le> 102 then Some (n - 87)
      else None)"

definition hex4 :: "char \<Rightarrow> char \<Rightarrow> char \<Rightarrow> char \<Rightarrow> nat option" where
  "hex4 a b c d =
     (case (hexval a, hexval b, hexval c, hexval d) of
        (Some w, Some x, Some y, Some z) \<Rightarrow> Some (((w * 16 + x) * 16 + y) * 16 + z)
      | _ \<Rightarrow> None)"

text \<open>The character a one-letter escape stands for.\<close>

definition escape :: "char \<Rightarrow> char option" where
  "escape e =
     (if e = CHR 0x22 then Some (CHR 0x22)
      else if e = CHR 0x5C then Some (CHR 0x5C)
      else if e = CHR ''/'' then Some (CHR ''/'')
      else if e = CHR ''b'' then Some (CHR 0x08)
      else if e = CHR ''f'' then Some (CHR 0x0C)
      else if e = CHR ''n'' then Some (CHR 0x0A)
      else if e = CHR ''r'' then Some (CHR 0x0D)
      else if e = CHR ''t'' then Some (CHR 0x09)
      else None)"

definition cons_fst :: "char \<Rightarrow> (string \<times> string) option \<Rightarrow> (string \<times> string) option" where
  "cons_fst c r = (case r of None \<Rightarrow> None | Some (s, t) \<Rightarrow> Some (c # s, t))"

text \<open>The characters of a string after its opening quote, up to the closing quote: the
  decoded string and the text left.\<close>

fun json_chars :: "string \<Rightarrow> (string \<times> string) option" where
  "json_chars [] = None"
| "json_chars [c] = (if c = CHR 0x22 then Some ([], []) else None)"
| "json_chars (c # e # r) =
     (if c = CHR 0x22 then Some ([], e # r)
      else if c = CHR 0x5C then
        (if e = CHR ''u'' then
           (case r of
              h1 # h2 # h3 # h4 # r' \<Rightarrow>
                (case hex4 h1 h2 h3 h4 of
                   None \<Rightarrow> None
                 | Some n \<Rightarrow> if n < 256 then cons_fst (char_of n) (json_chars r') else None)
            | _ \<Rightarrow> None)
         else (case escape e of
                 None \<Rightarrow> None
               | Some ch \<Rightarrow> cons_fst ch (json_chars r)))
      else if (of_char c :: nat) < 32 then None
      else cons_fst c (json_chars (e # r)))"

text \<open>A number literal at the head of the text: \<open>-? (0 | [1-9][0-9]*) (. [0-9]+)? ([eE] [+-]? [0-9]+)?\<close>.\<close>

definition digits1 :: "string \<Rightarrow> (string \<times> string) option" where
  "digits1 s = (let d = takeWhile isDigit s in
                if d = [] then None else Some (d, dropWhile isDigit s))"

definition json_int :: "string \<Rightarrow> (string \<times> string) option" where
  "json_int s =
     (case s of
        [] \<Rightarrow> None
      | c # r \<Rightarrow> if c = CHR ''0'' then Some (''0'', r) else digits1 s)"

definition json_frac :: "string \<Rightarrow> (string \<times> string) option" where
  "json_frac s =
     (case s of
        [] \<Rightarrow> Some ([], s)
      | c # r \<Rightarrow>
          if c = CHR ''.'' then
            (case digits1 r of None \<Rightarrow> None | Some (d, t) \<Rightarrow> Some (c # d, t))
          else Some ([], s))"

definition json_exp :: "string \<Rightarrow> (string \<times> string) option" where
  "json_exp s =
     (case s of
        [] \<Rightarrow> Some ([], s)
      | c # r \<Rightarrow>
          if c = CHR ''e'' \<or> c = CHR ''E'' then
            (case r of
               [] \<Rightarrow> None
             | g # r' \<Rightarrow>
                 if g = CHR ''+'' \<or> g = CHR ''-'' then
                   (case digits1 r' of None \<Rightarrow> None | Some (d, t) \<Rightarrow> Some (c # g # d, t))
                 else
                   (case digits1 r of None \<Rightarrow> None | Some (d, t) \<Rightarrow> Some (c # d, t)))
          else Some ([], s))"

definition json_number :: "string \<Rightarrow> (string \<times> string) option" where
  "json_number s =
     (let (sign, s1) = (case s of
                          [] \<Rightarrow> ([], s)
                        | c # r \<Rightarrow> if c = CHR ''-'' then ([c], r) else ([], s))
      in case json_int s1 of
           None \<Rightarrow> None
         | Some (i, s2) \<Rightarrow>
             (case json_frac s2 of
                None \<Rightarrow> None
              | Some (f, s3) \<Rightarrow>
                  (case json_exp s3 of
                     None \<Rightarrow> None
                   | Some (e, s4) \<Rightarrow> Some (sign @ i @ f @ e, s4))))"

text \<open>A value at the head of the text, after white space. The first argument bounds the
  number of nested calls; \<open>JSON_parse\<close> starts with more than any text needs.\<close>

fun json_value :: "nat \<Rightarrow> string \<Rightarrow> (jsvalue \<times> string) option"
  and json_elements :: "nat \<Rightarrow> string \<Rightarrow> jsvalue list \<Rightarrow> (jsvalue list \<times> string) option"
  and json_members ::
    "nat \<Rightarrow> string \<Rightarrow> (string \<times> jsvalue) list \<Rightarrow> ((string \<times> jsvalue) list \<times> string) option"
where
  "json_value 0 s = None"
| "json_value (Suc n) s =
     (case skip_ws s of
        [] \<Rightarrow> None
      | c # r \<Rightarrow>
          if c = CHR ''{'' then
            (case skip_ws r of
               [] \<Rightarrow> None
             | d # r' \<Rightarrow>
                 if d = CHR ''}'' then Some (JObject [], r')
                 else (case json_members n r [] of
                         None \<Rightarrow> None
                       | Some (kvs, t) \<Rightarrow> Some (JObject kvs, t)))
          else if c = CHR ''['' then
            (case skip_ws r of
               [] \<Rightarrow> None
             | d # r' \<Rightarrow>
                 if d = CHR '']'' then Some (JArray [], r')
                 else (case json_elements n r [] of
                         None \<Rightarrow> None
                       | Some (vs, t) \<Rightarrow> Some (JArray vs, t)))
          else if c = CHR 0x22 then
            (case json_chars r of
               None \<Rightarrow> None
             | Some (str, t) \<Rightarrow> Some (JString str, t))
          else if startsWith (c # r) ''true'' then Some (JBool True, drop 4 (c # r))
          else if startsWith (c # r) ''false'' then Some (JBool False, drop 5 (c # r))
          else if startsWith (c # r) ''null'' then Some (JNull, drop 4 (c # r))
          else if c = CHR ''-'' \<or> isDigit c then
            (case json_number (c # r) of
               None \<Rightarrow> None
             | Some (lit, t) \<Rightarrow> Some (JNumber lit, t))
          else None)"
| "json_elements 0 s acc = None"
| "json_elements (Suc n) s acc =
     (case json_value n s of
        None \<Rightarrow> None
      | Some (v, r) \<Rightarrow>
          (case skip_ws r of
             [] \<Rightarrow> None
           | d # r' \<Rightarrow>
               if d = CHR '','' then json_elements n r' (acc @ [v])
               else if d = CHR '']'' then Some (acc @ [v], r')
               else None))"
| "json_members 0 s acc = None"
| "json_members (Suc n) s acc =
     (case skip_ws s of
        [] \<Rightarrow> None
      | q # r \<Rightarrow>
          if q \<noteq> CHR 0x22 then None
          else
            (case json_chars r of
               None \<Rightarrow> None
             | Some (k, r1) \<Rightarrow>
                 (case skip_ws r1 of
                    [] \<Rightarrow> None
                  | col # r2 \<Rightarrow>
                      if col \<noteq> CHR '':'' then None
                      else
                        (case json_value n r2 of
                           None \<Rightarrow> None
                         | Some (v, r3) \<Rightarrow>
                             (case skip_ws r3 of
                                [] \<Rightarrow> None
                              | d # r4 \<Rightarrow>
                                  if d = CHR '','' then json_members n r4 (acc @ [(k, v)])
                                  else if d = CHR ''}'' then Some (acc @ [(k, v)], r4)
                                  else None)))))"

text \<open>\<open>JSON.parse(text)\<close>: one value, white space around it, nothing else.\<close>

definition JSON_parse :: "string \<Rightarrow> jsvalue option" where
  "JSON_parse s =
     (case json_value (2 * length s + 2) s of
        None \<Rightarrow> None
      | Some (v, r) \<Rightarrow> if skip_ws r = [] then Some v else None)"

subsection \<open>The events of a line\<close>

text \<open>
  \<open>processLine\<close> decodes and applies in one step. \<open>lineEvents\<close> is what it decodes, as
  data, in the order it applies it: a conversation id (a true \<open>conversation_id\<close> member)
  and text fragments. \<open>applyEvent\<close> is what it does with each; \<open>processLine_events\<close>
  below shows that the two together are \<open>processLine\<close>.
\<close>

datatype event = ConversationId jsvalue | TextFragment string

definition plainText :: "string \<Rightarrow> event list" where
  "plainText data = (if trim data \<noteq> [] then [TextFragment data] else [])"

definition lineEvents :: "(string \<Rightarrow> jsvalue option) \<Rightarrow> string \<Rightarrow> event list" where
  "lineEvents parse line =
     (if startsWith line ''data: '' then
        (let data = slice 6 line in
         if data = ''[DONE]'' then []
         else
           (case parse data of
              None \<Rightarrow> plainText data
            | Some parsed \<Rightarrow>
                (case get_member parsed ''conversation_id'' of
                   None \<Rightarrow> plainText data
                 | Some cid \<Rightarrow>
                     (if truthy cid then [ConversationId cid] else []) @
                     (case get_member parsed ''content'' of
                        None \<Rightarrow> plainText data
                      | Some c \<Rightarrow> if truthy c then [TextFragment (js_str c)] else []))))
      else [])"

fun applyEvent :: "string \<Rightarrow> jsvalue \<Rightarrow> event \<Rightarrow> chat_page \<Rightarrow> chat_page" where
  "applyEvent aid cid0 (ConversationId cid) st =
     (if \<not> truthy cid0 then st\<lparr>conversationId := cid\<rparr> else st)"
| "applyEvent aid cid0 (TextFragment x) st =
     st\<lparr>messages := appendContent aid x (messages st)\<rparr>"

definition chunkEvents :: "(string \<Rightarrow> jsvalue option) \<Rightarrow> string \<Rightarrow> event list" where
  "chunkEvents parse chunk = concat (map (lineEvents parse) (split_on CHR 0x0A chunk))"

definition streamEvents :: "(string \<Rightarrow> jsvalue option) \<Rightarrow> string list \<Rightarrow> event list" where
  "streamEvents parse chunks = concat (map (chunkEvents parse) chunks)"

fun textFragments :: "event list \<Rightarrow> string list" where
  "textFragments [] = []"
| "textFragments (TextFragment x # evs) = x # textFragments evs"
| "textFragments (ConversationId c # evs) = textFragments evs"

fun conversationIds :: "event list \<Rightarrow> jsvalue list" where
  "conversationIds [] = []"
| "conversationIds (ConversationId c # evs) = c # conversationIds evs"
| "conversationIds (TextFragment x # evs) = conversationIds evs"

subsection \<open>A sequence of submissions\<close>

text \<open>One use of the form: the text typed into the field (\<open>setInput\<close> from \<open>onChange\<close>),
  then \<open>handleSubmit\<close> with the clock readings and the transport's answer of that call.\<close>

record submission =
  typed :: string
  clock1 :: nat
  clock2 :: nat
  answer :: response

definition submit :: "(string \<Rightarrow> jsvalue option) \<Rightarrow> submission \<Rightarrow> chat_page \<Rightarrow> chat_page" where
  "submit parse s st =
     handleSubmit parse (clock1 s) (clock2 s) (answer s) (st\<lparr>input := typed s\<rparr>)"

definition accepted :: "submission \<Rightarrow> bool" where
  "accepted s = (trim (typed s) \<noteq> [])"

fun submissions :: "(string \<Rightarrow> jsvalue option) \<Rightarrow> submission list \<Rightarrow> chat_page \<Rightarrow> chat_page" where
  "submissions parse [] st = st"
| "submissions parse (s # ss) st = submissions parse ss (submit parse s st)"


subsection \<open>Predicates the properties use\<close>

text \<open>A list of chunks cut only at line ends: every chunk but the last is empty or ends
  with the line feed.\<close>

fun cutAtLineEnds :: "string list \<Rightarrow> bool" where
  "cutAtLineEnds [] = True"
| "cutAtLineEnds [c] = True"
| "cutAtLineEnds (c # d # cs) = ((c = [] \<or> last c = CHR 0x0A) \<and> cutAtLineEnds (d # cs))"

text \<open>The \<open>try\<close> block of \<open>processLine\<close> throws on a payload: \<open>JSON.parse\<close> throws, or
  it returns \<open>null\<close>, on which the first member read throws.\<close>

definition tryThrows :: "(string \<Rightarrow> jsvalue option) \<Rightarrow> string \<Rightarrow> bool" where
  "tryThrows parse data =
     (case parse data of
        None \<Rightarrow> True
      | Some parsed \<Rightarrow> get_member parsed ''conversation_id'' = None)"

text \<open>A value that is an object, the record a frame is expected to be.\<close>

fun isRecord :: "jsvalue \<Rightarrow> bool" where
  "isRecord (JObject kvs) = True"
| "isRecord v = False"

section \<open>Properties\<close>

lemma split_on_not_Nil: "split_on sep s \<noteq> []"
  by (induction s) (auto split: list.splits)

subsection \<open>Message ids\<close>





subsection \<open>While an exchange is active\<close>

lemma processLine_isStreaming [simp]:
  "isStreaming (processLine parse aid cid0 line st) = isStreaming st"
  by (simp add: processLine_def nonJson_def Let_def split: option.splits)

lemma processChunk_isStreaming [simp]:
  "isStreaming (processChunk parse aid cid0 chunk st) = isStreaming st"
proof -
  have "isStreaming (fold (processLine parse aid cid0) ls st) = isStreaming st" for ls
    by (induction ls arbitrary: st) simp_all
  then show ?thesis by (simp add: processChunk_def)
qed

lemma readLoop_isStreaming [simp]:
  "isStreaming (readLoop parse aid cid0 chunks st) = isStreaming st"
  by (induction chunks arbitrary: st) simp_all

lemma begin_exchange_isStreaming [simp]:
  "isStreaming (begin_exchange now1 now2 st)"
  by (simp add: begin_exchange_def Let_def)

subsection \<open>The guard of \<open>handleSubmit\<close>\<close>



subsection \<open>What a fragment changes\<close>

lemma appendContent_length [simp]: "length (appendContent aid x prev) = length prev"
  by (simp add: appendContent_def)

lemma appendContent_absent:
  "\<forall>m \<in> set prev. msg_id m \<noteq> aid \<Longrightarrow> appendContent aid x prev = prev"
  by (induction prev) (simp_all add: appendContent_def)

lemma showError_absent:
  "\<forall>m \<in> set prev. msg_id m \<noteq> aid \<Longrightarrow> showError aid prev = prev"
  by (induction prev) (simp_all add: showError_def)

lemma processLine_absent:
  "\<forall>m \<in> set (messages st). msg_id m \<noteq> aid \<Longrightarrow>
   messages (processLine parse aid cid0 line st) = messages st"
  by (simp add: processLine_def nonJson_def Let_def appendContent_absent split: option.splits)

lemma processChunk_absent:
  "\<forall>m \<in> set (messages st). msg_id m \<noteq> aid \<Longrightarrow>
   messages (processChunk parse aid cid0 chunk st) = messages st"
proof -
  have "\<forall>m \<in> set (messages st). msg_id m \<noteq> aid \<Longrightarrow>
        messages (fold (processLine parse aid cid0) ls st) = messages st" for ls
    by (induction ls arbitrary: st) (simp_all add: processLine_absent)
  then show "\<forall>m \<in> set (messages st). msg_id m \<noteq> aid \<Longrightarrow> ?thesis"
    by (simp add: processChunk_def)
qed

lemma readLoop_absent:
  "\<forall>m \<in> set (messages st). msg_id m \<noteq> aid \<Longrightarrow>
   messages (readLoop parse aid cid0 chunks st) = messages st"
  by (induction chunks arbitrary: st) (simp_all add: processChunk_absent)

text \<open>
  Claim C8. Applying a fragment keeps the length of the transcript, changes the content of
  the messages whose id is the placeholder's and leaves every other message as it was. When
  no message has that id (the transcript was replaced while the stream was read), the
  application, and with it the whole rest of the stream and the \<open>catch\<close> of a failure,
  leaves the transcript unchanged.
\<close>

theorem fragment_frame:
  "length (appendContent aid x prev) = length prev
   \<and> (\<forall>i < length prev.
         appendContent aid x prev ! i =
           (if msg_id (prev ! i) = aid
            then (prev ! i)\<lparr>content := content (prev ! i) @ x\<rparr> else prev ! i))
   \<and> ((\<forall>m \<in> set prev. msg_id m \<noteq> aid) \<longrightarrow> appendContent aid x prev = prev)
   \<and> ((\<forall>m \<in> set (messages st). msg_id m \<noteq> aid) \<longrightarrow>
         messages (readLoop parse aid cid0 chunks st) = messages st
         \<and> messages (onError aid st) = messages st)"
proof (intro conjI allI impI)
  show "length (appendContent aid x prev) = length prev" by simp
next
  fix i assume "i < length prev"
  then show "appendContent aid x prev ! i =
           (if msg_id (prev ! i) = aid
            then (prev ! i)\<lparr>content := content (prev ! i) @ x\<rparr> else prev ! i)"
    by (simp add: appendContent_def)
next
  assume "\<forall>m \<in> set prev. msg_id m \<noteq> aid"
  then show "appendContent aid x prev = prev" by (rule appendContent_absent)
next
  assume a: "\<forall>m \<in> set (messages st). msg_id m \<noteq> aid"
  then show "messages (readLoop parse aid cid0 chunks st) = messages st"
    by (rule readLoop_absent)
  from a show "messages (onError aid st) = messages st"
    by (simp add: onError_def showError_absent)
qed

theorem fragment_frame_witness:
  "appendContent ''1002'' ''lo''
     [\<lparr>msg_id = ''1000'', role = User, content = ''hi''\<rparr>,
      \<lparr>msg_id = ''1002'', role = Assistant, content = ''Hel''\<rparr>] ! 0
     = \<lparr>msg_id = ''1000'', role = User, content = ''hi''\<rparr>
   \<and> appendContent ''1002'' ''lo''
     [\<lparr>msg_id = ''1000'', role = User, content = ''hi''\<rparr>,
      \<lparr>msg_id = ''1002'', role = Assistant, content = ''Hel''\<rparr>] ! 1
     = \<lparr>msg_id = ''1002'', role = Assistant, content = ''Hello''\<rparr>
   \<and> appendContent ''1002'' ''lo'' [\<lparr>msg_id = ''7'', role = Assistant, content = ''old''\<rparr>]
     = [\<lparr>msg_id = ''7'', role = Assistant, content = ''old''\<rparr>]
   \<and> messages (readLoop JSON_parse ''1002'' JUndefined [''data: lo\<newline>'']
        (initial\<lparr>messages := [\<lparr>msg_id = ''7'', role = Assistant, content = ''old''\<rparr>]\<rparr>))
     = [\<lparr>msg_id = ''7'', role = Assistant, content = ''old''\<rparr>]"
  using fragment_frame[of "''1002''" "''lo''"
      "[\<lparr>msg_id = ''1000'', role = User, content = ''hi''\<rparr>,
        \<lparr>msg_id = ''1002'', role = Assistant, content = ''Hel''\<rparr>]"]
    fragment_frame[of "''1002''" "''lo''"
      "[\<lparr>msg_id = ''7'', role = Assistant, content = ''old''\<rparr>]"
      "initial\<lparr>messages := [\<lparr>msg_id = ''7'', role = Assistant, content = ''old''\<rparr>]\<rparr>"
      JSON_parse JUndefined "[''data: lo\<newline>'']"]
  by (simp add: initial_def)

subsection \<open>Decoding and applying\<close>

lemma nonJson_events:
  "nonJson aid data st = fold (applyEvent aid cid0) (plainText data) st"
  by (simp add: nonJson_def plainText_def)

lemma processLine_events:
  "processLine parse aid cid0 line st = fold (applyEvent aid cid0) (lineEvents parse line) st"
  by (simp add: processLine_def lineEvents_def Let_def nonJson_events[of aid _ _ cid0]
      split: option.splits)

lemma processChunk_events:
  "processChunk parse aid cid0 chunk st = fold (applyEvent aid cid0) (chunkEvents parse chunk) st"
proof -
  have "fold (processLine parse aid cid0) ls st
        = fold (applyEvent aid cid0) (concat (map (lineEvents parse) ls)) st" for ls
    by (induction ls arbitrary: st) (simp_all add: processLine_events)
  then show ?thesis by (simp add: processChunk_def chunkEvents_def)
qed

lemma readLoop_events:
  "readLoop parse aid cid0 chunks st = fold (applyEvent aid cid0) (streamEvents parse chunks) st"
  by (induction chunks arbitrary: st) (simp_all add: streamEvents_def processChunk_events)

lemma applyEvents_messages:
  "messages (fold (applyEvent aid cid0) evs st)
   = fold (appendContent aid) (textFragments evs) (messages st)"
  by (induction evs arbitrary: st rule: textFragments.induct) simp_all

lemma applyEvents_conversationId:
  "conversationId (fold (applyEvent aid cid0) evs st)
   = (if truthy cid0 \<or> conversationIds evs = [] then conversationId st
      else last (conversationIds evs))"
  by (induction evs arbitrary: st rule: conversationIds.induct) simp_all

lemma applyEvents_rest [simp]:
  "input (fold (applyEvent aid cid0) evs st) = input st"
  "isStreaming (fold (applyEvent aid cid0) evs st) = isStreaming st"
  "sent (fold (applyEvent aid cid0) evs st) = sent st"
  by (induction evs arbitrary: st rule: textFragments.induct) simp_all

lemma appendContent_snoc:
  "appendContent aid x (ms @ [m])
   = appendContent aid x ms @
       [if msg_id m = aid then m\<lparr>content := content m @ x\<rparr> else m]"
  by (simp add: appendContent_def)

lemma fold_appendContent_placeholder:
  "msg_id m = aid \<Longrightarrow>
   fold (appendContent aid) xs (ms @ [m])
   = fold (appendContent aid) xs ms @ [m\<lparr>content := content m @ concat xs\<rparr>]"
  by (induction xs arbitrary: ms m) (simp_all add: appendContent_snoc)

lemma fold_appendContent_placeholder2:
  "msg_id m = aid \<Longrightarrow>
   fold (appendContent aid) xs (ms @ [u, m])
   = fold (appendContent aid) xs (ms @ [u]) @ [m\<lparr>content := content m @ concat xs\<rparr>]"
  using fold_appendContent_placeholder[of m aid xs "ms @ [u]"] by simp

lemma fold_appendContent_length [simp]:
  "length (fold (appendContent aid) xs ms) = length ms"
  by (induction xs arbitrary: ms) simp_all

lemma begin_exchange_messages:
  "messages (begin_exchange now1 now2 st)
   = messages st @ [userMessage now1 st,
        \<lparr>msg_id = assistantId now2, role = Assistant, content = []\<rparr>]"
  by (simp add: begin_exchange_def Let_def)

lemma begin_exchange_conversationId [simp]:
  "conversationId (begin_exchange now1 now2 st) = conversationId st"
  by (simp add: begin_exchange_def Let_def)

lemma handleSubmit_Done:
  assumes "trim (input st) \<noteq> []" and "\<not> isStreaming st"
  shows "handleSubmit parse now1 now2 (Body chunks Done) st
         = (fold (applyEvent (assistantId now2) (conversationId st))
              (streamEvents parse chunks) (begin_exchange now1 now2 st))
             \<lparr>isStreaming := False\<rparr>"
  using assms by (simp add: handleSubmit_def consume_def readLoop_events)

lemma handleSubmit_Done_messages:
  assumes "trim (input st) \<noteq> []" and "\<not> isStreaming st"
  shows "messages (handleSubmit parse now1 now2 (Body chunks Done) st)
         = fold (appendContent (assistantId now2))
             (textFragments (streamEvents parse chunks)) (messages st @ [userMessage now1 st])
           @ [\<lparr>msg_id = assistantId now2, role = Assistant,
                content = concat (textFragments (streamEvents parse chunks))\<rparr>]"
  by (simp add: handleSubmit_Done[OF assms] applyEvents_messages begin_exchange_messages
      fold_appendContent_placeholder2)

lemma handleSubmit_Done_conversationId:
  assumes "trim (input st) \<noteq> []" and "\<not> isStreaming st"
  shows "conversationId (handleSubmit parse now1 now2 (Body chunks Done) st)
         = (if truthy (conversationId st) \<or> conversationIds (streamEvents parse chunks) = []
            then conversationId st
            else last (conversationIds (streamEvents parse chunks)))"
  by (simp add: handleSubmit_Done[OF assms] applyEvents_conversationId)

subsection \<open>An exchange that completes\<close>

text \<open>
  Claim C6. When a submission is accepted and the stream is read to its end, the transcript
  has grown by two messages and the last one, the placeholder, holds the text fragments of
  the stream concatenated in the order they were decoded. The conversation id is the one
  the page had if it was set, or if the stream carried none; otherwise it is taken from the
  stream. For the four frames of the simple exchange the content is \<open>Hello\<close> and the id
  \<open>c1\<close> (the witness).
\<close>

theorem completed_content:
  assumes "trim (input st) \<noteq> []" and "\<not> isStreaming st"
  shows "length (messages (handleSubmit parse now1 now2 (Body chunks Done) st))
           = length (messages st) + 2
    \<and> last (messages (handleSubmit parse now1 now2 (Body chunks Done) st))
        = \<lparr>msg_id = assistantId now2, role = Assistant,
           content = concat (textFragments (streamEvents parse chunks))\<rparr>
    \<and> conversationId (handleSubmit parse now1 now2 (Body chunks Done) st)
        = (if truthy (conversationId st) \<or> conversationIds (streamEvents parse chunks) = []
           then conversationId st
           else last (conversationIds (streamEvents parse chunks)))"
  by (simp add: handleSubmit_Done_messages[OF assms] handleSubmit_Done_conversationId[OF assms])

lemma scenario_events:
  \<open>streamEvents JSON_parse
     [''data: {"conversation_id":"c1"}\<newline>\<newline>data: {"content":"Hel"}\<newline>\<newline>data: {"content":"lo"}\<newline>\<newline>data: [DONE]\<newline>'']
   = [ConversationId (JString ''c1''), TextFragment ''Hel'', TextFragment ''lo'']\<close>
  by code_simp

lemma trim_hi: "trim ''hi'' = ''hi''"
  by (simp add: trim_def isWhiteSpace_def)

theorem completed_content_witness:
  \<open>last (messages (handleSubmit JSON_parse 1730000000000 1730000000002
       (Body [''data: {"conversation_id":"c1"}\<newline>\<newline>data: {"content":"Hel"}\<newline>\<newline>data: {"content":"lo"}\<newline>\<newline>data: [DONE]\<newline>''] Done)
       (initial\<lparr>input := ''hi''\<rparr>)))
     = \<lparr>msg_id = ''1730000000003'', role = Assistant, content = ''Hello''\<rparr>
   \<and> conversationId (handleSubmit JSON_parse 1730000000000 1730000000002
       (Body [''data: {"conversation_id":"c1"}\<newline>\<newline>data: {"content":"Hel"}\<newline>\<newline>data: {"content":"lo"}\<newline>\<newline>data: [DONE]\<newline>''] Done)
       (initial\<lparr>input := ''hi''\<rparr>))
     = JString ''c1''\<close>
proof -
  have a: "trim (input (initial\<lparr>input := ''hi''\<rparr>)) \<noteq> []"
    by (simp add: trim_hi)
  have b: "\<not> isStreaming (initial\<lparr>input := ''hi''\<rparr>)"
    by (simp add: initial_def)
  have c: "assistantId 1730000000002 = ''1730000000003''"
    by (simp add: assistantId_def toString.simps digit_def)
  show ?thesis
    using completed_content[OF a b, of JSON_parse 1730000000000 1730000000002]
    by (simp add: scenario_events c initial_def)
qed

subsection \<open>Chunk boundaries\<close>

lemma split_on_append:
  "split_on sep (a @ sep # b) = split_on sep a @ split_on sep b"
proof (induction a)
  case Nil
  show ?case by simp
next
  case (Cons c a)
  obtain l ls where s: "split_on sep a = l # ls"
    using split_on_not_Nil[of sep a] by (cases "split_on sep a") auto
  with Cons show ?case by simp
qed

lemma lineEvents_Nil [simp]: "lineEvents parse [] = []"
  by (simp add: lineEvents_def startsWith_def)

lemma chunkEvents_Nil [simp]: "chunkEvents parse [] = []"
  by (simp add: chunkEvents_def)

lemma chunkEvents_line_end:
  "chunkEvents parse (a @ CHR 0x0A # b) = chunkEvents parse (a @ [CHR 0x0A]) @ chunkEvents parse b"
  using split_on_append[of "CHR 0x0A" a b] split_on_append[of "CHR 0x0A" a "[]"]
  by (simp add: chunkEvents_def)

lemma chunkEvents_append:
  assumes "c = [] \<or> last c = CHR 0x0A"
  shows "chunkEvents parse (c @ d) = chunkEvents parse c @ chunkEvents parse d"
proof (cases "c = []")
  case True
  then show ?thesis by simp
next
  case False
  with assms have "c = butlast c @ [CHR 0x0A]"
    by (metis append_butlast_last_id)
  then obtain a where c: "c = a @ [CHR 0x0A]" ..
  show ?thesis
    using chunkEvents_line_end[of parse a d] by (simp add: c)
qed

lemma streamEvents_cut:
  "cutAtLineEnds cs \<Longrightarrow> streamEvents parse cs = chunkEvents parse (concat cs)"
proof (induction cs rule: cutAtLineEnds.induct)
  case 1
  show ?case by (simp add: streamEvents_def)
next
  case (2 c)
  show ?case by (simp add: streamEvents_def)
next
  case (3 c d cs)
  then have ih: "streamEvents parse (d # cs) = chunkEvents parse (concat (d # cs))"
    and c: "c = [] \<or> last c = CHR 0x0A"
    by simp_all
  have "streamEvents parse (c # d # cs) = chunkEvents parse c @ streamEvents parse (d # cs)"
    by (simp add: streamEvents_def)
  also have "\<dots> = chunkEvents parse (c @ concat (d # cs))"
    by (simp only: ih chunkEvents_append[OF c])
  finally show ?case by simp
qed

text \<open>
  Claim C1, as amended. The page keeps no buffer between chunks: the events of a stream are,
  chunk after chunk, the events of the pieces that splitting that chunk alone at the line
  feed gives, each piece taken as a line, and the read loop applies exactly these. Two ways
  of cutting the same text give the same events, and the same state, when both cut only at
  line ends.
\<close>

theorem line_cut_chunkings:
  "streamEvents parse chunks
     = concat (map (\<lambda>c. concat (map (lineEvents parse) (split_on CHR 0x0A c))) chunks)
   \<and> readLoop parse aid cid0 chunks st
     = fold (applyEvent aid cid0)
         (concat (map (\<lambda>c. concat (map (lineEvents parse) (split_on CHR 0x0A c))) chunks)) st
   \<and> (cutAtLineEnds C1 \<and> cutAtLineEnds C2 \<and> concat C1 = concat C2 \<longrightarrow>
        streamEvents parse C1 = streamEvents parse C2
        \<and> readLoop parse aid cid0 C1 st = readLoop parse aid cid0 C2 st)"
proof (intro conjI impI)
  show e: "streamEvents parse chunks
     = concat (map (\<lambda>c. concat (map (lineEvents parse) (split_on CHR 0x0A c))) chunks)"
    by (induction chunks) (simp_all add: streamEvents_def chunkEvents_def)
  show "readLoop parse aid cid0 chunks st
     = fold (applyEvent aid cid0)
         (concat (map (\<lambda>c. concat (map (lineEvents parse) (split_on CHR 0x0A c))) chunks)) st"
    by (simp only: readLoop_events e)
next
  assume c: "cutAtLineEnds C1 \<and> cutAtLineEnds C2 \<and> concat C1 = concat C2"
  then show s: "streamEvents parse C1 = streamEvents parse C2"
    by (simp add: streamEvents_cut)
  show "readLoop parse aid cid0 C1 st = readLoop parse aid cid0 C2 st"
    by (simp only: readLoop_events s)
qed

text \<open>The claim as stated fails: the frame below, cut inside its payload, is decoded as
  the raw text of its first piece, and its second piece yields nothing.\<close>

lemma split_frame_events:
  \<open>streamEvents JSON_parse [''data: {"content":"Hel'', ''lo"}\<newline>'']
     = [TextFragment ''{"content":"Hel'']\<close>
  \<open>streamEvents JSON_parse [''data: {"content":"Hello"}\<newline>''] = [TextFragment ''Hello'']\<close>
  by code_simp+

theorem chunking_counterexample:
  \<open>concat [''data: {"content":"Hel'', ''lo"}\<newline>''] = concat [''data: {"content":"Hello"}\<newline>'']
   \<and> streamEvents JSON_parse [''data: {"content":"Hel'', ''lo"}\<newline>'']
       = [TextFragment ''{"content":"Hel'']
   \<and> streamEvents JSON_parse [''data: {"content":"Hello"}\<newline>''] = [TextFragment ''Hello'']
   \<and> streamEvents JSON_parse [''data: {"content":"Hel'', ''lo"}\<newline>'']
       \<noteq> streamEvents JSON_parse [''data: {"content":"Hello"}\<newline>'']\<close>
  by (simp add: split_frame_events)

lemma whole_frames_events:
  \<open>streamEvents JSON_parse [''data: {"content":"Hel"}\<newline>'', ''\<newline>data: {"content":"lo"}\<newline>'']
     = [TextFragment ''Hel'', TextFragment ''lo'']\<close>
  by code_simp

theorem line_cut_chunkings_witness:
  \<open>streamEvents JSON_parse [''data: {"content":"Hel"}\<newline>\<newline>data: {"content":"lo"}\<newline>'']
     = [TextFragment ''Hel'', TextFragment ''lo'']
   \<and> readLoop JSON_parse ''1001'' JUndefined
         [''data: {"content":"Hel"}\<newline>\<newline>data: {"content":"lo"}\<newline>''] initial
     = readLoop JSON_parse ''1001'' JUndefined
         [''data: {"content":"Hel"}\<newline>'', ''\<newline>data: {"content":"lo"}\<newline>''] initial\<close>
proof -
  have a: \<open>cutAtLineEnds [''data: {"content":"Hel"}\<newline>\<newline>data: {"content":"lo"}\<newline>'']\<close>
    by simp
  have b: \<open>cutAtLineEnds [''data: {"content":"Hel"}\<newline>'', ''\<newline>data: {"content":"lo"}\<newline>'']\<close>
    by simp
  have c: \<open>concat [''data: {"content":"Hel"}\<newline>\<newline>data: {"content":"lo"}\<newline>'']
           = concat [''data: {"content":"Hel"}\<newline>'', ''\<newline>data: {"content":"lo"}\<newline>'']\<close>
    by simp
  have \<open>streamEvents JSON_parse [''data: {"content":"Hel"}\<newline>\<newline>data: {"content":"lo"}\<newline>'']
          = streamEvents JSON_parse
              [''data: {"content":"Hel"}\<newline>'', ''\<newline>data: {"content":"lo"}\<newline>'']
        \<and> readLoop JSON_parse ''1001'' JUndefined
              [''data: {"content":"Hel"}\<newline>\<newline>data: {"content":"lo"}\<newline>''] initial
          = readLoop JSON_parse ''1001'' JUndefined
              [''data: {"content":"Hel"}\<newline>'', ''\<newline>data: {"content":"lo"}\<newline>''] initial\<close>
    using line_cut_chunkings[of JSON_parse "[]" "''1001''" JUndefined initial
        \<open>[''data: {"content":"Hel"}\<newline>\<newline>data: {"content":"lo"}\<newline>'']\<close>
        \<open>[''data: {"content":"Hel"}\<newline>'', ''\<newline>data: {"content":"lo"}\<newline>'']\<close>]
      a b c
    by blast
  then show ?thesis
    by (simp only: whole_frames_events simp_thms)
qed

subsection \<open>The \<open>[DONE]\<close> line\<close>

lemma lineEvents_DONE [simp]: "lineEvents parse ''data: [DONE]'' = []"
  by (simp add: lineEvents_def startsWith_def slice_def)

lemma chunkEvents_DONE [simp]: "chunkEvents parse ''data: [DONE]\<newline>'' = []"
  by (simp add: chunkEvents_def)

text \<open>
  Claim C2, as amended. A line that is exactly \<open>data: [DONE]\<close> is skipped: it yields no
  event and leaves the state as it is. It does not end the decoding: the loop goes on to the
  next line, so a chunk with the line and the same chunk without it are decoded alike, and
  the reading stops only when the reader reports \<open>done\<close>.
\<close>

theorem done_line_skipped:
  "processLine parse aid cid0 ''data: [DONE]'' st = st
   \<and> ((a = [] \<or> last a = CHR 0x0A) \<longrightarrow>
        chunkEvents parse (a @ ''data: [DONE]\<newline>'' @ b) = chunkEvents parse (a @ b)
        \<and> processChunk parse aid cid0 (a @ ''data: [DONE]\<newline>'' @ b) st
            = processChunk parse aid cid0 (a @ b) st)"
proof (intro conjI impI)
  show "processLine parse aid cid0 ''data: [DONE]'' st = st"
    by (simp add: processLine_events)
next
  assume a: "a = [] \<or> last a = CHR 0x0A"
  have d: "''data: [DONE]\<newline>'' = [] \<or> last ''data: [DONE]\<newline>'' = CHR 0x0A"
    by simp
  show e: "chunkEvents parse (a @ ''data: [DONE]\<newline>'' @ b) = chunkEvents parse (a @ b)"
    by (simp only: chunkEvents_append[OF a] chunkEvents_append[OF d] chunkEvents_DONE append_Nil)
  show "processChunk parse aid cid0 (a @ ''data: [DONE]\<newline>'' @ b) st
            = processChunk parse aid cid0 (a @ b) st"
    by (simp only: processChunk_events e)
qed

text \<open>The claim as stated fails: lines after the \<open>[DONE]\<close> line still change the
  transcript and the conversation id, and a \<open>[DONE]\<close> line cut by a chunk boundary is
  not recognised: its first piece is appended as text.\<close>

lemma after_done_events:
  \<open>streamEvents JSON_parse
     [''data: [DONE]\<newline>data: more\<newline>data: {"conversation_id":"c9"}\<newline>'']
   = [TextFragment ''more'', ConversationId (JString ''c9'')]\<close>
  \<open>streamEvents JSON_parse [''data: [DONE]\<newline>''] = []\<close>
  \<open>streamEvents JSON_parse [''data: [DO'', ''NE]\<newline>''] = [TextFragment ''[DO'']\<close>
  by code_simp+

lemma typed_hi:
  "trim (input (initial\<lparr>input := ''hi''\<rparr>)) \<noteq> []"
  "\<not> isStreaming (initial\<lparr>input := ''hi''\<rparr>)"
  by (simp_all add: trim_hi initial_def)

lemma typed_hi_fields:
  "messages (initial\<lparr>input := ''hi''\<rparr>) = []"
  "conversationId (initial\<lparr>input := ''hi''\<rparr>) = JUndefined"
  "input (initial\<lparr>input := ''hi''\<rparr>) = ''hi''"
  by (simp_all add: initial_def)

lemma clock_ids:
  "toString 1730000000000 = ''1730000000000''"
  "assistantId 1730000000002 = ''1730000000003''"
  by (simp_all add: assistantId_def toString.simps digit_def)

theorem done_not_terminal:
  \<open>last (messages (handleSubmit JSON_parse 1730000000000 1730000000002
       (Body [''data: [DONE]\<newline>''] Done) (initial\<lparr>input := ''hi''\<rparr>)))
     = \<lparr>msg_id = ''1730000000003'', role = Assistant, content = []\<rparr>
   \<and> conversationId (handleSubmit JSON_parse 1730000000000 1730000000002
       (Body [''data: [DONE]\<newline>''] Done) (initial\<lparr>input := ''hi''\<rparr>))
     = JUndefined
   \<and> last (messages (handleSubmit JSON_parse 1730000000000 1730000000002
       (Body [''data: [DONE]\<newline>data: more\<newline>data: {"conversation_id":"c9"}\<newline>''] Done)
       (initial\<lparr>input := ''hi''\<rparr>)))
     = \<lparr>msg_id = ''1730000000003'', role = Assistant, content = ''more''\<rparr>
   \<and> conversationId (handleSubmit JSON_parse 1730000000000 1730000000002
       (Body [''data: [DONE]\<newline>data: more\<newline>data: {"conversation_id":"c9"}\<newline>''] Done)
       (initial\<lparr>input := ''hi''\<rparr>))
     = JString ''c9''
   \<and> last (messages (handleSubmit JSON_parse 1730000000000 1730000000002
       (Body [''data: [DO'', ''NE]\<newline>''] Done) (initial\<lparr>input := ''hi''\<rparr>)))
     = \<lparr>msg_id = ''1730000000003'', role = Assistant, content = ''[DO''\<rparr>\<close>
  by (simp add: handleSubmit_Done_messages[OF typed_hi] handleSubmit_Done_conversationId[OF typed_hi]
      after_done_events clock_ids typed_hi_fields)

theorem done_line_skipped_witness:
  \<open>processLine JSON_parse ''1730000000003'' JUndefined ''data: [DONE]'' initial = initial
   \<and> chunkEvents JSON_parse (''data: Hel\<newline>'' @ ''data: [DONE]\<newline>'' @ ''data: lo\<newline>'')
     = [TextFragment ''Hel'', TextFragment ''lo'']\<close>
proof -
  have a: "''data: Hel\<newline>'' = [] \<or> last ''data: Hel\<newline>'' = CHR 0x0A" by simp
  have e: "chunkEvents JSON_parse (''data: Hel\<newline>'' @ ''data: lo\<newline>'')
           = [TextFragment ''Hel'', TextFragment ''lo'']"
    by code_simp
  show ?thesis
    using done_line_skipped[of JSON_parse "''1730000000003''" JUndefined initial
        "''data: Hel\<newline>''" "''data: lo\<newline>''"] a e
    by (simp only: simp_thms)
qed

subsection \<open>More than one conversation id in a stream\<close>

lemma two_ids_events:
  \<open>streamEvents JSON_parse
     [''data: {"conversation_id":"c1"}\<newline>'', ''data: {"content":"Hi"}\<newline>'',
      ''data: {"conversation_id":"c2"}\<newline>'']
   = [ConversationId (JString ''c1''), TextFragment ''Hi'', ConversationId (JString ''c2'')]\<close>
  by code_simp

text \<open>
  Claim C3: of the conversation ids a stream carries, only the first is bound and the later
  ones are ignored. The code does not keep to it. The guard \<open>!conversationId\<close> reads the
  constant of the render that created \<open>handleSubmit\<close>, which stays \<open>undefined\<close> through
  the whole exchange, so every conversation-id frame calls \<open>setConversationId\<close> and the
  last one stands: with ids \<open>c1\<close> then \<open>c2\<close> in one stream the page ends with \<open>c2\<close>.
\<close>

theorem second_conversation_id_wins:
  \<open>conversationId (handleSubmit JSON_parse 1730000000000 1730000000002
       (Body [''data: {"conversation_id":"c1"}\<newline>'', ''data: {"content":"Hi"}\<newline>'',
              ''data: {"conversation_id":"c2"}\<newline>''] Done)
       (initial\<lparr>input := ''hi''\<rparr>))
     = JString ''c2''\<close>
  by (simp add: handleSubmit_Done_conversationId[OF typed_hi] two_ids_events typed_hi_fields)

subsection \<open>An exchange that fails\<close>


lemma showError_length [simp]: "length (showError aid ms) = length ms"
  by (simp add: showError_def)








subsection \<open>Payloads that are not frames\<close>

lemma trim_Nil_iff: "trim s = [] \<longleftrightarrow> (\<forall>c \<in> set s. isWhiteSpace c)"
proof -
  have "trim s = [] \<longleftrightarrow> (\<forall>c \<in> set (dropWhile isWhiteSpace s). isWhiteSpace c)"
    by (simp add: trim_def dropWhile_eq_Nil_conv)
  also have "\<dots> \<longleftrightarrow> dropWhile isWhiteSpace s = []"
  proof
    assume a: "\<forall>c \<in> set (dropWhile isWhiteSpace s). isWhiteSpace c"
    show "dropWhile isWhiteSpace s = []"
    proof (rule ccontr)
      assume n: "dropWhile isWhiteSpace s \<noteq> []"
      then have "\<not> isWhiteSpace (hd (dropWhile isWhiteSpace s))"
        by (rule hd_dropWhile)
      moreover from n have "hd (dropWhile isWhiteSpace s) \<in> set (dropWhile isWhiteSpace s)"
        by simp
      ultimately show False using a by blast
    qed
  next
    assume "dropWhile isWhiteSpace s = []"
    then show "\<forall>c \<in> set (dropWhile isWhiteSpace s). isWhiteSpace c"
      by (metis empty_iff list.set(1))
  qed
  also have "\<dots> \<longleftrightarrow> (\<forall>c \<in> set s. isWhiteSpace c)"
    by (rule dropWhile_eq_Nil_conv)
  finally show ?thesis .
qed

lemma data_line:
  "startsWith (''data: '' @ data) ''data: ''" "slice 6 (''data: '' @ data) = data"
  by (simp_all add: startsWith_def slice_def)

lemma throwing_payload:
  assumes "data \<noteq> ''[DONE]''" and "tryThrows parse data"
  shows "lineEvents parse (''data: '' @ data) = plainText data"
  using assms
  by (auto simp add: lineEvents_def data_line tryThrows_def simp del: append.simps
      split: option.splits)

lemma get_member_scalar:
  "\<not> isRecord v \<Longrightarrow> v \<noteq> JNull \<Longrightarrow> v \<noteq> JUndefined \<Longrightarrow> get_member v name = Some JUndefined"
  by (cases v) simp_all

lemma scalar_payload:
  assumes "data \<noteq> ''[DONE]''" and "parse data = Some v"
    and "\<not> isRecord v" and "v \<noteq> JNull" and "v \<noteq> JUndefined"
  shows "lineEvents parse (''data: '' @ data) = []"
  using assms(1,2) get_member_scalar[OF assms(3,4,5)]
  by (simp add: lineEvents_def data_line del: append.simps)

text \<open>
  Claim C7, as amended. The fallback is the \<open>catch\<close> of the \<open>try\<close> block. For a payload
  other than \<open>[DONE]\<close> on which the block throws, the payload is appended as it is, not
  trimmed, when its trimmed text is not empty, and nothing happens otherwise; the state that
  results is an ordinary one. A payload that \<open>JSON.parse\<close> accepts and that is no record
  (a number, a string, \<open>true\<close>, \<open>false\<close>, an array) does not throw: it has neither
  member and yields no event.
\<close>

theorem non_json_payload:
  "(data \<noteq> ''[DONE]'' \<and> tryThrows parse data \<longrightarrow>
      lineEvents parse (''data: '' @ data)
        = (if trim data \<noteq> [] then [TextFragment data] else [])
      \<and> processLine parse aid cid0 (''data: '' @ data) st
        = (if trim data \<noteq> []
           then st\<lparr>messages := appendContent aid data (messages st)\<rparr> else st))
   \<and> (data \<noteq> ''[DONE]'' \<and> parse data = Some v
        \<and> \<not> isRecord v \<and> v \<noteq> JNull \<and> v \<noteq> JUndefined \<longrightarrow>
      lineEvents parse (''data: '' @ data) = []
      \<and> processLine parse aid cid0 (''data: '' @ data) st = st)"
proof (intro conjI impI)
  assume a: "data \<noteq> ''[DONE]'' \<and> tryThrows parse data"
  then have e: "lineEvents parse (''data: '' @ data) = plainText data"
    by (intro throwing_payload) simp_all
  show "lineEvents parse (''data: '' @ data)
        = (if trim data \<noteq> [] then [TextFragment data] else [])"
    by (simp only: e plainText_def)
  show "processLine parse aid cid0 (''data: '' @ data) st
        = (if trim data \<noteq> []
           then st\<lparr>messages := appendContent aid data (messages st)\<rparr> else st)"
    unfolding processLine_events e plainText_def by simp
next
  assume b: "data \<noteq> ''[DONE]'' \<and> parse data = Some v
        \<and> \<not> isRecord v \<and> v \<noteq> JNull \<and> v \<noteq> JUndefined"
  then show e: "lineEvents parse (''data: '' @ data) = []"
    by (intro scalar_payload[of data parse v]) simp_all
  show "processLine parse aid cid0 (''data: '' @ data) st = st"
    unfolding processLine_events e by simp
qed

lemma not_json_throws: "tryThrows JSON_parse ''not-json''"
  by code_simp

lemma scalar_events:
  "JSON_parse ''true'' = Some (JBool True)"
  "JSON_parse ''42'' = Some (JNumber ''42'')"
  "streamEvents JSON_parse [''data: true\<newline>'', ''data: 42\<newline>''] = []"
  by code_simp+

theorem non_json_payload_witness:
  "lineEvents JSON_parse ''data: not-json'' = [TextFragment ''not-json'']
   \<and> processLine JSON_parse ''1730000000003'' JUndefined ''data: not-json''
       (initial\<lparr>messages := [\<lparr>msg_id = ''1730000000003'', role = Assistant, content = []\<rparr>]\<rparr>)
     = initial\<lparr>messages :=
         [\<lparr>msg_id = ''1730000000003'', role = Assistant, content = ''not-json''\<rparr>]\<rparr>
   \<and> lineEvents JSON_parse ''data: true'' = []
   \<and> processLine JSON_parse ''1730000000003'' JUndefined ''data: true'' initial = initial"
proof -
  have a: "''not-json'' \<noteq> ''[DONE]'' \<and> tryThrows JSON_parse ''not-json''"
    using not_json_throws by simp
  have t: "trim ''not-json'' \<noteq> []" by (simp add: trim_Nil_iff isWhiteSpace_def)
  have b: "''true'' \<noteq> ''[DONE]'' \<and> JSON_parse ''true'' = Some (JBool True)
        \<and> \<not> isRecord (JBool True) \<and> JBool True \<noteq> JNull \<and> JBool True \<noteq> JUndefined"
    by (simp add: scalar_events)
  show ?thesis
    using non_json_payload[of "''not-json''" JSON_parse "''1730000000003''" JUndefined
        "initial\<lparr>messages := [\<lparr>msg_id = ''1730000000003'', role = Assistant, content = []\<rparr>]\<rparr>"]
      non_json_payload[of "''true''" JSON_parse "''1730000000003''" JUndefined initial "JBool True"]
      a b t
    by (simp add: appendContent_def initial_def)
qed

text \<open>The claim as stated fails: \<open>true\<close> and \<open>42\<close> are no records and are not empty,
  and neither is appended.\<close>

theorem json_scalar_dropped:
  "''true'' \<noteq> ''[DONE]'' \<and> trim ''true'' \<noteq> []
   \<and> JSON_parse ''true'' = Some (JBool True)
   \<and> ''42'' \<noteq> ''[DONE]'' \<and> trim ''42'' \<noteq> []
   \<and> JSON_parse ''42'' = Some (JNumber ''42'')
   \<and> streamEvents JSON_parse [''data: true\<newline>'', ''data: 42\<newline>''] = []
   \<and> last (messages (handleSubmit JSON_parse 1730000000000 1730000000002
       (Body [''data: true\<newline>'', ''data: 42\<newline>''] Done) (initial\<lparr>input := ''hi''\<rparr>)))
     = \<lparr>msg_id = ''1730000000003'', role = Assistant, content = []\<rparr>"
  by (simp add: handleSubmit_Done_messages[OF typed_hi] scalar_events clock_ids
      trim_Nil_iff isWhiteSpace_def)

subsection \<open>\<open>[DONE]\<close> with something after it\<close>

text \<open>The model of \<open>JSON.parse\<close> rejects the text at the letter \<open>D\<close>, with calls to
  spare.\<close>

lemma json_value_DONE:
  "json_value (Suc (Suc (Suc n))) (''[DONE]'' @ ws) = None"
  by (simp add: skip_ws_def isJsonWs_def startsWith_def isDigit_def)

lemma JSON_parse_DONE: "JSON_parse (''[DONE]'' @ ws) = None"
proof -
  have "2 * length (''[DONE]'' @ ws) + 2 = Suc (Suc (Suc (2 * length ws + 11)))"
    by simp
  then show ?thesis
    unfolding JSON_parse_def by (simp only: json_value_DONE option.case)
qed

text \<open>
  Claim C10. The comparison with \<open>[DONE]\<close> is exact. A payload that is \<open>[DONE]\<close> followed
  by anything, a carriage return or other white space in particular, is not the terminator;
  \<open>JSON.parse\<close> throws on it, its trimmed text is not empty, and the whole payload is
  appended to the placeholder as a text fragment.
\<close>

theorem done_with_suffix:
  assumes "ws \<noteq> []"
  shows "''[DONE]'' @ ws \<noteq> ''[DONE]''
    \<and> tryThrows JSON_parse (''[DONE]'' @ ws)
    \<and> trim (''[DONE]'' @ ws) \<noteq> []
    \<and> lineEvents JSON_parse (''data: [DONE]'' @ ws) = [TextFragment (''[DONE]'' @ ws)]
    \<and> processLine JSON_parse aid cid0 (''data: [DONE]'' @ ws) st
        = st\<lparr>messages := appendContent aid (''[DONE]'' @ ws) (messages st)\<rparr>"
proof -
  have a: "''[DONE]'' @ ws \<noteq> ''[DONE]''" using assms by simp
  have b: "tryThrows JSON_parse (''[DONE]'' @ ws)"
    by (simp only: tryThrows_def JSON_parse_DONE option.case)
  have t: "trim (''[DONE]'' @ ws) \<noteq> []"
    by (simp add: trim_Nil_iff isWhiteSpace_def)
  have l: "''data: [DONE]'' @ ws = ''data: '' @ (''[DONE]'' @ ws)" by simp
  have e: "lineEvents JSON_parse (''data: '' @ (''[DONE]'' @ ws)) = plainText (''[DONE]'' @ ws)"
    using a b by (rule throwing_payload)
  have f: "lineEvents JSON_parse (''data: [DONE]'' @ ws) = [TextFragment (''[DONE]'' @ ws)]"
    unfolding l e plainText_def using t by simp
  have g: "processLine JSON_parse aid cid0 (''data: [DONE]'' @ ws) st
        = st\<lparr>messages := appendContent aid (''[DONE]'' @ ws) (messages st)\<rparr>"
    unfolding processLine_events f by simp
  from a b t f g show ?thesis by (intro conjI)
qed

theorem done_with_suffix_witness:
  "tryThrows JSON_parse (''[DONE]'' @ [CHR 0x0D])
   \<and> lineEvents JSON_parse (''data: [DONE]'' @ [CHR 0x0D]) = [TextFragment (''[DONE]'' @ [CHR 0x0D])]
   \<and> processLine JSON_parse ''1730000000003'' JUndefined (''data: [DONE]'' @ [CHR 0x0D])
       (initial\<lparr>messages := [\<lparr>msg_id = ''1730000000003'', role = Assistant, content = ''Hi''\<rparr>]\<rparr>)
     = initial\<lparr>messages :=
         [\<lparr>msg_id = ''1730000000003'', role = Assistant, content = ''Hi[DONE]'' @ [CHR 0x0D]\<rparr>]\<rparr>"
proof -
  have a: "[CHR 0x0D] \<noteq> []" by simp
  show ?thesis
    using done_with_suffix[OF a, of "''1730000000003''" JUndefined
        "initial\<lparr>messages := [\<lparr>msg_id = ''1730000000003'', role = Assistant, content = ''Hi''\<rparr>]\<rparr>"]
    by (simp add: appendContent_def initial_def)
qed

subsection \<open>The transcript over several submissions\<close>

lemma appendContent_ids [simp]:
  "map msg_id (appendContent aid x ms) = map msg_id ms"
  "map role (appendContent aid x ms) = map role ms"
  by (simp_all add: appendContent_def)

lemma showError_ids [simp]:
  "map msg_id (showError aid ms) = map msg_id ms"
  "map role (showError aid ms) = map role ms"
  by (simp_all add: showError_def)

lemma fold_appendContent_ids [simp]:
  "map msg_id (fold (appendContent aid) xs ms) = map msg_id ms"
  "map role (fold (appendContent aid) xs ms) = map role ms"
  by (induction xs arbitrary: ms) simp_all

lemma consume_ids:
  "map msg_id (messages (consume parse aid cid0 resp st)) = map msg_id (messages st)"
  "map role (messages (consume parse aid cid0 resp st)) = map role (messages st)"
  by (simp_all add: consume_def onError_def readLoop_events applyEvents_messages
      split: response.splits ending.splits)

lemma handleSubmit_ids:
  "map msg_id (messages (handleSubmit parse now1 now2 resp st))
   = map msg_id (messages st)
     @ (if trim (input st) = [] \<or> isStreaming st then []
        else [toString now1, assistantId now2])"
  "map role (messages (handleSubmit parse now1 now2 resp st))
   = map role (messages st)
     @ (if trim (input st) = [] \<or> isStreaming st then [] else [User, Assistant])"
  by (simp_all add: handleSubmit_def consume_ids begin_exchange_messages userMessage_def)

lemma handleSubmit_idle:
  "\<not> isStreaming st \<Longrightarrow> \<not> isStreaming (handleSubmit parse now1 now2 resp st)"
  by (simp add: handleSubmit_def)

lemma submit_idle:
  "\<not> isStreaming st \<Longrightarrow> \<not> isStreaming (submit parse s st)"
  by (simp add: submit_def handleSubmit_idle)

lemma submit_ids:
  assumes "\<not> isStreaming st"
  shows "map msg_id (messages (submit parse s st))
         = map msg_id (messages st)
           @ (if accepted s then [toString (clock1 s), assistantId (clock2 s)] else [])"
    and "map role (messages (submit parse s st))
         = map role (messages st) @ (if accepted s then [User, Assistant] else [])"
  using assms by (simp_all add: submit_def handleSubmit_ids accepted_def)

lemma submissions_idle:
  "\<not> isStreaming st \<Longrightarrow> \<not> isStreaming (submissions parse ss st)"
  by (induction ss arbitrary: st) (simp_all add: submit_idle)

lemma submissions_append:
  "submissions parse (ss @ later) st = submissions parse later (submissions parse ss st)"
  by (induction ss arbitrary: st) simp_all

lemma submissions_roles:
  "\<not> isStreaming st \<Longrightarrow>
   map role (messages (submissions parse ss st))
   = map role (messages st)
     @ concat (replicate (length (filter accepted ss)) [User, Assistant])"
  by (induction ss arbitrary: st) (simp_all add: submit_ids submit_idle)

lemma submissions_ids:
  "\<not> isStreaming st \<Longrightarrow>
   \<exists>new. map msg_id (messages (submissions parse ss st)) = map msg_id (messages st) @ new"
proof (induction ss arbitrary: st)
  case Nil
  show ?case by simp
next
  case (Cons s ss)
  from Cons.IH[OF submit_idle[OF Cons.prems], of parse s]
  obtain new where "map msg_id (messages (submissions parse ss (submit parse s st)))
                    = map msg_id (messages (submit parse s st)) @ new" ..
  then show ?case
    by (simp add: submit_ids(1)[OF Cons.prems])
qed

lemma length_pairs: "length (concat (replicate n [a, b])) = 2 * n"
  by (induction n) simp_all

lemma initial_idle: "\<not> isStreaming initial" "messages initial = []"
  by (simp_all add: initial_def)

lemma submissions_length:
  assumes "\<not> isStreaming st"
  shows "length (messages (submissions parse ss st))
         = length (messages st) + 2 * length (filter accepted ss)"
proof -
  have "length (map role (messages (submissions parse ss st)))
        = length (messages st) + 2 * length (filter accepted ss)"
    unfolding submissions_roles[OF assms] by (simp add: length_pairs)
  then show ?thesis by simp
qed

text \<open>
  Claim C9. Submissions made one after the other on a fresh page, each read to its end
  (completed or failed) before the next: the transcript has two messages for every
  submission that was accepted (on a transcript that was loaded, two more for each), a
  user message and then an assistant message each time. The ids and roles of the messages
  there at any moment are the same after any further submissions, and no updater of the
  page changes an id or a role.
\<close>

theorem transcript_pairs:
  "length (messages (submissions parse ss initial)) = 2 * length (filter accepted ss)
   \<and> (\<not> isStreaming st \<longrightarrow>
        length (messages (submissions parse ss st))
          = length (messages st) + 2 * length (filter accepted ss))
   \<and> map role (messages (submissions parse ss initial))
       = concat (replicate (length (filter accepted ss)) [User, Assistant])
   \<and> take (length (messages (submissions parse ss initial)))
          (map msg_id (messages (submissions parse (ss @ later) initial)))
       = map msg_id (messages (submissions parse ss initial))
   \<and> take (length (messages (submissions parse ss initial)))
          (map role (messages (submissions parse (ss @ later) initial)))
       = map role (messages (submissions parse ss initial))
   \<and> map msg_id (appendContent aid x prev) = map msg_id prev
   \<and> map role (appendContent aid x prev) = map role prev
   \<and> map msg_id (showError aid prev) = map msg_id prev
   \<and> map role (showError aid prev) = map role prev"
proof -
  let ?mid = "submissions parse ss initial"
  have r: "map role (messages ?mid)
           = concat (replicate (length (filter accepted ss)) [User, Assistant])"
    using submissions_roles[OF initial_idle(1), of parse ss] by (simp add: initial_idle)
  have "length (map role (messages ?mid)) = 2 * length (filter accepted ss)"
    unfolding r by (rule length_pairs)
  then have l: "length (messages ?mid) = 2 * length (filter accepted ss)"
    by simp
  have i: "\<not> isStreaming ?mid"
    by (rule submissions_idle[OF initial_idle(1)])
  obtain new where n: "map msg_id (messages (submissions parse later ?mid))
                       = map msg_id (messages ?mid) @ new"
    using submissions_ids[OF i] by blast
  have ti: "take (length (messages ?mid))
              (map msg_id (messages (submissions parse (ss @ later) initial)))
            = map msg_id (messages ?mid)"
    by (simp add: submissions_append n)
  have tr: "take (length (messages ?mid))
              (map role (messages (submissions parse (ss @ later) initial)))
            = map role (messages ?mid)"
    by (simp add: submissions_append submissions_roles[OF i])
  show ?thesis
    using l r ti tr by (simp add: submissions_length)
qed

theorem transcript_pairs_witness:
  \<open>length (messages (submissions JSON_parse
      [\<lparr>typed = ''hi'', clock1 = 1730000000000, clock2 = 1730000000002,
         answer = Body [''data: {"content":"Hello"}\<newline>'', ''data: [DONE]\<newline>''] Done\<rparr>,
       \<lparr>typed = ''  '', clock1 = 1730000005000, clock2 = 1730000005000, answer = NoBody\<rparr>,
       \<lparr>typed = ''more?'', clock1 = 1730000009000, clock2 = 1730000009000,
         answer = Body [''data: {"content":"Yes"}\<newline>''] Done\<rparr>]
      initial)) = 4
   \<and> map role (messages (submissions JSON_parse
      [\<lparr>typed = ''hi'', clock1 = 1730000000000, clock2 = 1730000000002,
         answer = Body [''data: {"content":"Hello"}\<newline>'', ''data: [DONE]\<newline>''] Done\<rparr>,
       \<lparr>typed = ''  '', clock1 = 1730000005000, clock2 = 1730000005000, answer = NoBody\<rparr>,
       \<lparr>typed = ''more?'', clock1 = 1730000009000, clock2 = 1730000009000,
         answer = Body [''data: {"content":"Yes"}\<newline>''] Done\<rparr>]
      initial)) = [User, Assistant, User, Assistant]\<close>
proof -
  have a: \<open>length (filter accepted
      [\<lparr>typed = ''hi'', clock1 = 1730000000000, clock2 = 1730000000002,
         answer = Body [''data: {"content":"Hello"}\<newline>'', ''data: [DONE]\<newline>''] Done\<rparr>,
       \<lparr>typed = ''  '', clock1 = 1730000005000, clock2 = 1730000005000, answer = NoBody\<rparr>,
       \<lparr>typed = ''more?'', clock1 = 1730000009000, clock2 = 1730000009000,
         answer = Body [''data: {"content":"Yes"}\<newline>''] Done\<rparr>]) = 2\<close>
    by (simp add: accepted_def trim_Nil_iff isWhiteSpace_def)
  show ?thesis
    using transcript_pairs[of JSON_parse
      \<open>[\<lparr>typed = ''hi'', clock1 = 1730000000000, clock2 = 1730000000002,
         answer = Body [''data: {"content":"Hello"}\<newline>'', ''data: [DONE]\<newline>''] Done\<rparr>,
       \<lparr>typed = ''  '', clock1 = 1730000005000, clock2 = 1730000005000, answer = NoBody\<rparr>,
       \<lparr>typed = ''more?'', clock1 = 1730000009000, clock2 = 1730000009000,
         answer = Body [''data: {"content":"Yes"}\<newline>''] Done\<rparr>]\<close>]
    by (simp only: a) (simp add: numeral_2_eq_2)
qed

end
